theory Spec2Isabelle
  imports Main "HOL-Library.Word" "HOL-Library.Sublist"
begin

section \<open>Strings\<close>

text \<open>
  A JavaScript string is a sequence of UTF-16 code units; \<open>===\<close> on strings is equality of
  these sequences and \<open>.length\<close> counts code units.  A literal is written \<open>js ''...''\<close>.
\<close>

type_synonym jschar = "16 word"

type_synonym jsstring = "jschar list"

definition js :: "string \<Rightarrow> jsstring" where
  "js s = map of_char s"

section \<open>Data model\<close>

text \<open>
  \<open>ts.LineAndCharacter\<close> and \<open>vscode.Position\<close> have the same two numeric members.
  \<open>vscode.Range\<close> has the members \<open>start\<close> and \<open>end\<close>, \<open>ts.TextSpan\<close> the members
  \<open>start\<close> and \<open>length\<close>; the fields carry a prefix here because the bare names are taken.
\<close>

record Position =
  line :: int
  character :: int

record Range =
  range_start :: Position
  range_end :: Position

record TextSpan =
  span_start :: int
  span_length :: int

text \<open>
  \<open>TemplateContext\<close> is an interface of the decorator package.  The service reads its
  members \<open>fileName\<close> and \<open>text\<close> and calls its methods \<open>toPosition\<close> and \<open>toOffset\<close>; every
  context object brings its own.
\<close>

record TemplateContext =
  fileName :: jsstring
  text' :: jsstring
  toPosition :: "int \<Rightarrow> Position"
  toOffset :: "Position \<Rightarrow> int"

text \<open>
  \<open>vscode.CompletionItemKind\<close> is a numeric enumeration of the package
  vscode-languageserver-types, which is not part of this repository.  A kind is the number
  it is at run time; the members the service names have the values the package gives them.
\<close>

type_synonym CompletionItemKind = int

definition CompletionItemKind_Text :: CompletionItemKind where
  "CompletionItemKind_Text = 1"

definition CompletionItemKind_Method :: CompletionItemKind where
  "CompletionItemKind_Method = 2"

definition CompletionItemKind_Function :: CompletionItemKind where
  "CompletionItemKind_Function = 3"

definition CompletionItemKind_Constructor :: CompletionItemKind where
  "CompletionItemKind_Constructor = 4"

definition CompletionItemKind_Field :: CompletionItemKind where
  "CompletionItemKind_Field = 5"

definition CompletionItemKind_Variable :: CompletionItemKind where
  "CompletionItemKind_Variable = 6"

definition CompletionItemKind_Class :: CompletionItemKind where
  "CompletionItemKind_Class = 7"

definition CompletionItemKind_Interface :: CompletionItemKind where
  "CompletionItemKind_Interface = 8"

definition CompletionItemKind_Module :: CompletionItemKind where
  "CompletionItemKind_Module = 9"

definition CompletionItemKind_Property :: CompletionItemKind where
  "CompletionItemKind_Property = 10"

definition CompletionItemKind_Unit :: CompletionItemKind where
  "CompletionItemKind_Unit = 11"

definition CompletionItemKind_Value :: CompletionItemKind where
  "CompletionItemKind_Value = 12"

definition CompletionItemKind_Enum :: CompletionItemKind where
  "CompletionItemKind_Enum = 13"

definition CompletionItemKind_Keyword :: CompletionItemKind where
  "CompletionItemKind_Keyword = 14"

definition CompletionItemKind_Snippet :: CompletionItemKind where
  "CompletionItemKind_Snippet = 15"

definition CompletionItemKind_Color :: CompletionItemKind where
  "CompletionItemKind_Color = 16"

definition CompletionItemKind_File :: CompletionItemKind where
  "CompletionItemKind_File = 17"

definition CompletionItemKind_Reference :: CompletionItemKind where
  "CompletionItemKind_Reference = 18"

text \<open>
  The members of \<open>ts.ScriptElementKind\<close> that the service produces.  \<open>keywordElement\<close>,
  \<open>aliasElement\<close> and \<open>stringElement\<close> are \<open>ScriptElementKind.keyword\<close>,
  \<open>ScriptElementKind.alias\<close> and \<open>ScriptElementKind.string\<close>.
\<close>

datatype ScriptElementKind =
    unknown
  | memberFunctionElement
  | functionElement
  | constructorImplementationElement
  | variableElement
  | classElement
  | interfaceElement
  | moduleElement
  | memberVariableElement
  | constElement
  | enumElement
  | keywordElement
  | aliasElement
  | stringElement

text \<open>\<open>vscode.MarkupContent\<close> and the object form of \<open>vscode.MarkedString\<close> both carry \<open>value\<close>.\<close>

record MarkupContent =
  markup_tag :: jsstring
  markup_value :: jsstring

text \<open>The argument of \<open>toDisplayParts\<close>: \<open>string | vscode.MarkupContent | undefined\<close>.\<close>

datatype DisplayText = PlainText jsstring | Markup MarkupContent

record CompletionItem =
  label :: jsstring
  item_kind :: "CompletionItemKind option"
  detail :: "jsstring option"
  item_documentation :: "DisplayText option"

record CompletionList =
  isIncomplete :: bool
  items :: "CompletionItem list"

record SymbolDisplayPart =
  part_kind :: jsstring
  part_text :: jsstring

record JSDocTagInfo =
  tag_name :: jsstring
  tag_text :: "jsstring option"

record CompletionEntry =
  entry_name :: jsstring
  entry_kindModifiers :: jsstring
  entry_kind :: ScriptElementKind
  sortText :: jsstring

record CompletionInfo =
  isGlobalCompletion :: bool
  isMemberCompletion :: bool
  isNewIdentifierLocation :: bool
  entries :: "CompletionEntry list"

record CompletionEntryDetails =
  details_name :: jsstring
  details_kind :: ScriptElementKind
  details_kindModifiers :: jsstring
  details_tags :: "JSDocTagInfo list"
  details_displayParts :: "SymbolDisplayPart list"
  details_documentation :: "SymbolDisplayPart list"

text \<open>
  \<open>vscode.Hover\<close>: the contents are a string, an object with a \<open>value\<close>, or an array; the
  range is optional.
\<close>

datatype HoverContents =
    HoverString jsstring
  | HoverArray "HoverContents list"
  | HoverObject MarkupContent

record Hover =
  hover_contents :: HoverContents
  hover_range :: "Range option"

record QuickInfo =
  quick_kind :: ScriptElementKind
  quick_kindModifiers :: jsstring
  textSpan :: TextSpan
  quick_displayParts :: "SymbolDisplayPart list"
  quick_documentation :: "SymbolDisplayPart list"
  quick_tags :: "JSDocTagInfo list"

record TextDocument =
  uri :: jsstring
  languageId :: jsstring
  version :: int
  getText :: jsstring
  positionAt :: "int \<Rightarrow> Position"
  offsetAt :: "Position \<Rightarrow> int"
  lineCount :: int

record TextEdit =
  edit_range :: Range
  edit_newText :: jsstring



text \<open>The options object handed to the HTML formatter.\<close>

record HTMLFormatConfiguration =
  fmt_tabSize :: int
  insertSpaces :: bool
  wrapLineLength :: int
  unformatted :: jsstring
  contentUnformatted :: jsstring
  indentInnerHtml :: bool
  preserveNewLines :: bool
  maxPreserveNewLines :: "int option"
  indentHandlebars :: bool
  endWithNewline :: bool
  extraLiners :: jsstring
  wrapAttributes :: jsstring

text \<open>
  What the service is constructed with or imports from outside this file, as far as the
  operations below call it:
  \<^item> \<open>getLanguageAtPosition d p\<close>:
  \<open>getDocumentRegions(htmlLanguageService, d).getLanguageAtPosition(p)\<close>, a language
  identifier or \<open>undefined\<close>;
  \<^item> \<open>htmlDoComplete d p\<close>:
  \<open>htmlLanguageService.doComplete(d, p, htmlLanguageService.parseHTMLDocument(d))\<close>;
  \<^item> \<open>cssDoComplete d p\<close>:
  \<open>cssLanguageService.doComplete(d, p, cssLanguageService.parseStylesheet(d))\<close>;
  \<^item> \<open>htmlDoHover d p\<close>:
  \<open>htmlLanguageService.doHover(d, p, htmlLanguageService.parseHTMLDocument(d))\<close>;
  \<^item> \<open>htmlFormat\<close>: \<open>htmlLanguageService.format\<close>;
  \<^item> \<open>styledGetQuickInfoAtPosition\<close>: \<open>styledLanguageService.getQuickInfoAtPosition\<close>;
  \<^item> \<open>formatEnabled\<close>: \<open>configuration.format.enabled\<close>.
  A result that may be \<open>null\<close> or \<open>undefined\<close> is an option.  The methods of the service
  take this record as their first argument, in the place of \<open>this\<close>.
\<close>

record Services =
  getLanguageAtPosition :: "TextDocument \<Rightarrow> Position \<Rightarrow> jsstring option"
  htmlDoComplete :: "TextDocument \<Rightarrow> Position \<Rightarrow> CompletionList option"
  cssDoComplete :: "TextDocument \<Rightarrow> Position \<Rightarrow> CompletionList option"
  htmlDoHover :: "TextDocument \<Rightarrow> Position \<Rightarrow> Hover option"
  htmlFormat :: "TextDocument \<Rightarrow> Range \<Rightarrow> HTMLFormatConfiguration \<Rightarrow> TextEdit list"
  styledGetQuickInfoAtPosition :: "TemplateContext \<Rightarrow> Position \<Rightarrow> QuickInfo option"
  formatEnabled :: bool

section \<open>The completions cache\<close>

definition emptyCompletionList :: CompletionList where
  "emptyCompletionList = \<lparr>isIncomplete = False, items = []\<rparr>"

text \<open>The four private members of \<open>CompletionsCache\<close>, each \<open>undefined\<close> until first stored.\<close>

record CompletionsCache =
  cachedCompletionsFile :: "jsstring option"
  cachedCompletionsPosition :: "Position option"
  cachedCompletionsContent :: "jsstring option"
  completions :: "CompletionList option"

definition newCompletionsCache :: CompletionsCache where
  "newCompletionsCache =
     \<lparr>cachedCompletionsFile = None, cachedCompletionsPosition = None,
      cachedCompletionsContent = None, completions = None\<rparr>"

definition arePositionsEqual :: "Position \<Rightarrow> Position \<Rightarrow> bool" where
  "arePositionsEqual left right =
     (line left = line right \<and> character left = character right)"

text \<open>
  \<open>getCached\<close>: the stored list and the stored position are objects, so each is truthy
  exactly when it has been stored.
\<close>

definition getCached :: "CompletionsCache \<Rightarrow> TemplateContext \<Rightarrow> Position \<Rightarrow> CompletionList option" where
  "getCached cache context position =
     (case completions cache of
        None \<Rightarrow> None
      | Some stored \<Rightarrow>
          if Some (fileName context) = cachedCompletionsFile cache
             \<and> (case cachedCompletionsPosition cache of
                   None \<Rightarrow> False
                 | Some cachedPosition \<Rightarrow> arePositionsEqual position cachedPosition)
             \<and> Some (text' context) = cachedCompletionsContent cache
          then Some stored
          else None)"

definition updateCached :: "CompletionsCache \<Rightarrow> TemplateContext \<Rightarrow> Position \<Rightarrow> CompletionList \<Rightarrow> CompletionsCache" where
  "updateCached cache context position completionList =
     cache\<lparr>cachedCompletionsFile := Some (fileName context),
           cachedCompletionsPosition := Some position,
           cachedCompletionsContent := Some (text' context),
           completions := Some completionList\<rparr>"

section \<open>Virtual documents\<close>

text \<open>
  \<open>contents.split(/n/g)\<close>: the pattern is the single letter \<open>n\<close> (code unit 0x6E), so the
  string is cut at every occurrence of that letter; the pieces are what lies between.
\<close>

fun split_n :: "jsstring \<Rightarrow> jsstring list" where
  "split_n [] = [[]]"
| "split_n (c # cs) =
     (if c = 0x6E then [] # split_n cs
      else (case split_n cs of
              [] \<Rightarrow> [[c]]
            | piece # pieces \<Rightarrow> (c # piece) # pieces))"

definition createVirtualDocument :: "Services \<Rightarrow> TemplateContext \<Rightarrow> TextDocument" where
  "createVirtualDocument svc context =
     (let contents = text' context
      in \<lparr>uri = js ''untitled://embedded.html'',
          languageId = js ''html'',
          version = 1,
          getText = contents,
          positionAt = (\<lambda>offset. toPosition context offset),
          offsetAt = (\<lambda>p. toOffset context p),
          lineCount = int (length (split_n contents)) + 1\<rparr>)"

definition createCssVirtualDocument :: "Services \<Rightarrow> TemplateContext \<Rightarrow> TextDocument" where
  "createCssVirtualDocument svc context =
     (let contents = text' context
      in \<lparr>uri = js ''untitled://embedded.css'',
          languageId = js ''css'',
          version = 1,
          getText = contents,
          positionAt = (\<lambda>offset. toPosition context offset),
          offsetAt = (\<lambda>p. toOffset context p),
          lineCount = int (length (split_n contents)) + 1\<rparr>)"

section \<open>Completions\<close>

text \<open>
  The part of \<open>getCompletionItems\<close> after the cache lookup: classification of the position
  and the \<open>switch\<close> on the language.  \<open>x || emptyCompletionList\<close> replaces an absent result.
\<close>

definition computeCompletionItems :: "Services \<Rightarrow> TemplateContext \<Rightarrow> Position \<Rightarrow> CompletionList" where
  "computeCompletionItems svc context position =
     (let htmlDoc = createVirtualDocument svc context;
          language = getLanguageAtPosition svc htmlDoc position
      in if language = Some (js ''html'') then
           (case htmlDoComplete svc htmlDoc position of
              Some found \<Rightarrow> found
            | None \<Rightarrow> emptyCompletionList)
         else if language = Some (js ''css'') then
           (let cssDoc = createCssVirtualDocument svc context
            in case cssDoComplete svc cssDoc position of
                 Some found \<Rightarrow> found
               | None \<Rightarrow> emptyCompletionList)
         else emptyCompletionList)"

text \<open>\<open>getCompletionItems\<close> returns the list and the cache it leaves behind.\<close>

definition getCompletionItems :: "Services \<Rightarrow> CompletionsCache \<Rightarrow> TemplateContext \<Rightarrow> Position \<Rightarrow> CompletionList \<times> CompletionsCache" where
  "getCompletionItems svc cache context position =
     (case getCached cache context position of
        Some cached \<Rightarrow> (cached, cache)
      | None \<Rightarrow>
          (let computed = computeCompletionItems svc context position
           in (computed, updateCached cache context position computed)))"

text \<open>
  The cache of a service that has answered the given completion requests, oldest first,
  since it was constructed.  No other operation writes the cache.
\<close>

definition cacheAfter :: "Services \<Rightarrow> (TemplateContext \<times> Position) list \<Rightarrow> CompletionsCache" where
  "cacheAfter svc requests =
     fold (\<lambda>(context, position) cache. snd (getCompletionItems svc cache context position))
       requests newCompletionsCache"

text \<open>
  The parameter \<open>typescript\<close> of the translation functions only supplies the enumeration
  \<open>ScriptElementKind\<close>, which is a datatype here.  The \<open>switch\<close> compares with \<open>===\<close>, one case
  after the other.
\<close>

definition translateionCompletionItemKind :: "CompletionItemKind \<Rightarrow> ScriptElementKind" where
  "translateionCompletionItemKind k =
     (if k = CompletionItemKind_Method then memberFunctionElement
      else if k = CompletionItemKind_Function then functionElement
      else if k = CompletionItemKind_Constructor then constructorImplementationElement
      else if k = CompletionItemKind_Field \<or> k = CompletionItemKind_Variable then variableElement
      else if k = CompletionItemKind_Class then classElement
      else if k = CompletionItemKind_Interface then interfaceElement
      else if k = CompletionItemKind_Module then moduleElement
      else if k = CompletionItemKind_Property then memberVariableElement
      else if k = CompletionItemKind_Unit \<or> k = CompletionItemKind_Value then constElement
      else if k = CompletionItemKind_Enum then enumElement
      else if k = CompletionItemKind_Keyword then keywordElement
      else if k = CompletionItemKind_Color then constElement
      else if k = CompletionItemKind_Reference then aliasElement
      else if k = CompletionItemKind_File then moduleElement
      else unknown)"

text \<open>\<open>item.kind ? ... : unknown\<close>: an absent kind and the number 0 are falsy.\<close>

definition translateItemKind :: "CompletionItemKind option \<Rightarrow> ScriptElementKind" where
  "translateItemKind k =
     (case k of
        None \<Rightarrow> unknown
      | Some n \<Rightarrow> if n = 0 then unknown else translateionCompletionItemKind n)"

text \<open>\<open>!text\<close> holds for \<open>undefined\<close> and for the empty string, never for an object.\<close>

definition toDisplayParts :: "DisplayText option \<Rightarrow> SymbolDisplayPart list" where
  "toDisplayParts t =
     (case t of
        None \<Rightarrow> []
      | Some (PlainText s) \<Rightarrow>
          if s = [] then [] else [\<lparr>part_kind = js ''text'', part_text = s\<rparr>]
      | Some (Markup m) \<Rightarrow> [\<lparr>part_kind = js ''text'', part_text = markup_value m\<rparr>])"

definition translateCompetionEntry :: "CompletionItem \<Rightarrow> CompletionEntry" where
  "translateCompetionEntry item =
     \<lparr>entry_name = label item,
      entry_kindModifiers = [],
      entry_kind = translateItemKind (item_kind item),
      sortText = js ''0''\<rparr>"

definition translateCompletionItemsToCompletionInfo :: "CompletionList \<Rightarrow> CompletionInfo" where
  "translateCompletionItemsToCompletionInfo list =
     \<lparr>isGlobalCompletion = False,
      isMemberCompletion = False,
      isNewIdentifierLocation = False,
      entries = map translateCompetionEntry (items list)\<rparr>"

definition translateCompletionItemsToCompletionEntryDetails :: "CompletionItem \<Rightarrow> CompletionEntryDetails" where
  "translateCompletionItemsToCompletionEntryDetails item =
     \<lparr>details_name = label item,
      details_kind = translateItemKind (item_kind item),
      details_kindModifiers = js ''declare'',
      details_tags = [],
      details_displayParts = toDisplayParts (map_option PlainText (detail item)),
      details_documentation = toDisplayParts (item_documentation item)\<rparr>"

definition getCompletionsAtPosition :: "Services \<Rightarrow> CompletionsCache \<Rightarrow> TemplateContext \<Rightarrow> Position \<Rightarrow> CompletionInfo \<times> CompletionsCache" where
  "getCompletionsAtPosition svc cache context position =
     (let (list, cache') = getCompletionItems svc cache context position
      in (translateCompletionItemsToCompletionInfo list, cache'))"

text \<open>The empty string \<open>''\<close> is the empty list of code units.\<close>

definition getCompletionEntryDetails :: "Services \<Rightarrow> CompletionsCache \<Rightarrow> TemplateContext \<Rightarrow> Position \<Rightarrow> jsstring \<Rightarrow> CompletionEntryDetails \<times> CompletionsCache" where
  "getCompletionEntryDetails svc cache context position name =
     (let (list, cache') = getCompletionItems svc cache context position
      in case find (\<lambda>x. label x = name) (items list) of
           None \<Rightarrow>
             (\<lparr>details_name = name,
               details_kind = unknown,
               details_kindModifiers = [],
               details_tags = [],
               details_displayParts = toDisplayParts (Some (PlainText name)),
               details_documentation = []\<rparr>, cache')
         | Some item \<Rightarrow> (translateCompletionItemsToCompletionEntryDetails item, cache'))"

section \<open>Regular expressions of the service\<close>

text \<open>
  The class \<open>\s\<close> of a JavaScript regular expression: the white space and line terminator
  code units of ECMAScript (tab, line feed, vertical tab, form feed, carriage return,
  space, no-break space, the Unicode space separators, line and paragraph separator, and
  the byte order mark).
\<close>

definition isWhiteSpace :: "jschar \<Rightarrow> bool" where
  "isWhiteSpace c =
     (c = 0x09 \<or> c = 0x0A \<or> c = 0x0B \<or> c = 0x0C \<or> c = 0x0D \<or> c = 0x20 \<or> c = 0xA0
      \<or> c = 0x1680 \<or> (0x2000 \<le> c \<and> c \<le> 0x200A) \<or> c = 0x2028 \<or> c = 0x2029
      \<or> c = 0x202F \<or> c = 0x205F \<or> c = 0x3000 \<or> c = 0xFEFF)"




text \<open>
  The flag \<open>i\<close> compares canonicalised code units.  For a pattern of ASCII characters this
  is equality up to the case of the ASCII letters: a code unit from 128 on is never
  canonicalised to an ASCII one.
\<close>

definition canonicalize :: "jschar \<Rightarrow> jschar" where
  "canonicalize c = (if 0x61 \<le> c \<and> c \<le> 0x7A then c - 0x20 else c)"

text \<open>
  Whether \<open>/(<style>\n)\s+/i\<close> matches at the start of the string: the eight units of the
  tag and the line feed, then at least one white space unit.
\<close>

definition styleDeclarationAt :: "jsstring \<Rightarrow> bool" where
  "styleDeclarationAt s =
     (map canonicalize (take 8 s) = map canonicalize (js ''<style>\<newline>'')
      \<and> (case drop 8 s of [] \<Rightarrow> False | c # _ \<Rightarrow> isWhiteSpace c))"

text \<open>
  \<open>value.replace(/(<style>\n)\s+/gi, '')\<close>: with the flag \<open>g\<close> every match is removed; the
  search goes on behind the match, which \<open>\s+\<close> has extended over all the white space that
  follows the tag line.
\<close>

function removeStyleDeclaration :: "jsstring \<Rightarrow> jsstring" where
  "removeStyleDeclaration [] = []"
| "removeStyleDeclaration (c # cs) =
     (if styleDeclarationAt (c # cs)
      then removeStyleDeclaration (dropWhile isWhiteSpace (drop 8 (c # cs)))
      else c # removeStyleDeclaration cs)"
  by pat_completeness auto
termination
proof (relation "measure length")
  show "wf (measure length)"
    by simp
next
  fix c :: jschar and cs :: jsstring
  have "length (dropWhile isWhiteSpace (drop 7 cs)) \<le> length (drop 7 cs)"
    by (rule length_dropWhile_le)
  then show "(dropWhile isWhiteSpace (drop 8 (c # cs)), c # cs) \<in> measure length"
    by simp
next
  fix c :: jschar and cs :: jsstring
  show "(cs, c # cs) \<in> measure length"
    by simp
qed

section \<open>Hover\<close>

text \<open>
  \<open>convertPart\<close> pushes onto the two arrays \<open>header\<close> and \<open>docs\<close> of the enclosing call; here
  it takes the pair of arrays and returns it extended.  \<open>forEach\<close> visits the elements of an
  array in order.
\<close>

fun convertPart :: "jsstring option \<Rightarrow> HoverContents \<Rightarrow> SymbolDisplayPart list \<times> SymbolDisplayPart list \<Rightarrow> SymbolDisplayPart list \<times> SymbolDisplayPart list" where
  "convertPart language (HoverString s) acc =
     (fst acc, snd acc @ [\<lparr>part_kind = js ''unknown'', part_text = s\<rparr>])"
| "convertPart language (HoverArray hs) acc = fold (convertPart language) hs acc"
| "convertPart language (HoverObject m) acc =
     (if language = Some (js ''css'')
      then (fst acc @ [\<lparr>part_kind = js ''unknown'',
                         part_text = removeStyleDeclaration (markup_value m)\<rparr>], snd acc)
      else (fst acc @ [\<lparr>part_kind = js ''unknown'', part_text = markup_value m\<rparr>], snd acc))"

definition translateHover :: "Services \<Rightarrow> Hover \<Rightarrow> Position \<Rightarrow> TemplateContext \<Rightarrow> jsstring option \<Rightarrow> QuickInfo" where
  "translateHover svc hover position context language =
     (let (header, docs) = convertPart language (hover_contents hover) ([], []);
          start = toOffset context
                    (case hover_range hover of
                       Some r \<Rightarrow> range_start r
                     | None \<Rightarrow> position)
      in \<lparr>quick_kind = stringElement,
          quick_kindModifiers = [],
          textSpan =
            \<lparr>span_start = start,
             span_length =
               (case hover_range hover of
                  Some r \<Rightarrow> toOffset context (range_end r) - start
                | None \<Rightarrow> 1)\<rparr>,
          quick_displayParts = header,
          quick_documentation = docs,
          quick_tags = []\<rparr>)"

text \<open>
  \<open>getQuickInfoAtPosition\<close>: the \<open>switch\<close> sets \<open>hover\<close> for \<open>'html'\<close>, returns at once for
  \<open>'css'\<close> and leaves \<open>hover\<close> undefined otherwise; a hover that is there is translated with
  the language the classification gave.
\<close>

definition getQuickInfoAtPosition :: "Services \<Rightarrow> TemplateContext \<Rightarrow> Position \<Rightarrow> QuickInfo option" where
  "getQuickInfoAtPosition svc context position =
     (let htmlDoc = createVirtualDocument svc context;
          language = getLanguageAtPosition svc htmlDoc position;
          translated = (\<lambda>hover. case hover of
                                   Some h \<Rightarrow> Some (translateHover svc h position context language)
                                 | None \<Rightarrow> None)
      in if language = Some (js ''html'') then translated (htmlDoHover svc htmlDoc position)
         else if language = Some (js ''css'') then styledGetQuickInfoAtPosition svc context position
         else translated None)"

section \<open>Formatting\<close>






section \<open>Notions used to state the properties\<close>

text \<open>Two requests have the same keys when the cache cannot tell them apart.\<close>

definition sameKeys :: "TemplateContext \<Rightarrow> Position \<Rightarrow> TemplateContext \<Rightarrow> Position \<Rightarrow> bool" where
  "sameKeys c p c' p' =
     (fileName c = fileName c' \<and> line p = line p' \<and> character p = character p'
      \<and> text' c = text' c')"

text \<open>The classification of a request is neither \<open>'html'\<close> nor \<open>'css'\<close>.\<close>

definition classifiedNone :: "Services \<Rightarrow> TemplateContext \<Rightarrow> Position \<Rightarrow> bool" where
  "classifiedNone svc c p =
     (getLanguageAtPosition svc (createVirtualDocument svc c) p \<noteq> Some (js ''html'')
      \<and> getLanguageAtPosition svc (createVirtualDocument svc c) p \<noteq> Some (js ''css''))"

text \<open>
  Whatever \<open>getCached\<close> hands out was computed for one of the given requests, one with the
  keys of the lookup.
\<close>

definition cacheOrigin :: "Services \<Rightarrow> (TemplateContext \<times> Position) list \<Rightarrow> CompletionsCache \<Rightarrow> bool" where
  "cacheOrigin svc requests cache =
     (\<forall>c p list.
        getCached cache c p = Some list \<longrightarrow>
        (\<exists>r \<in> set requests.
           sameKeys (fst r) (snd r) c p \<and> list = computeCompletionItems svc (fst r) (snd r)))"

text \<open>
  The values of the object parts of hover contents, and its string parts, in the order
  \<open>convertPart\<close> visits them.
\<close>

fun objectValues :: "HoverContents \<Rightarrow> jsstring list" where
  "objectValues (HoverString s) = []"
| "objectValues (HoverArray hs) = concat (map objectValues hs)"
| "objectValues (HoverObject m) = [markup_value m]"

fun stringValues :: "HoverContents \<Rightarrow> jsstring list" where
  "stringValues (HoverString s) = [s]"
| "stringValues (HoverArray hs) = concat (map stringValues hs)"
| "stringValues (HoverObject m) = []"

definition unknownPart :: "jsstring \<Rightarrow> SymbolDisplayPart" where
  "unknownPart s = \<lparr>part_kind = js ''unknown'', part_text = s\<rparr>"

text \<open>Whether the style pattern matches somewhere in the string.\<close>

fun containsStyleDeclaration :: "jsstring \<Rightarrow> bool" where
  "containsStyleDeclaration [] = False"
| "containsStyleDeclaration (c # cs) =
     (styleDeclarationAt (c # cs) \<or> containsStyleDeclaration cs)"






text \<open>
  The line count as the specification words it, for comparison with \<open>lineCount\<close>: a split
  at every occurrence of the two characters backslash (0x5C) and \<open>n\<close> (0x6E), plus one.
\<close>

fun spec_split_escape :: "jsstring \<Rightarrow> jsstring list" where
  "spec_split_escape [] = [[]]"
| "spec_split_escape [c] = [[c]]"
| "spec_split_escape (c # d # cs) =
     (if c = 0x5C \<and> d = 0x6E then [] # spec_split_escape cs
      else (case spec_split_escape (d # cs) of
              [] \<Rightarrow> [[c]]
            | piece # pieces \<Rightarrow> (c # piece) # pieces))"

definition spec_lineCount :: "jsstring \<Rightarrow> int" where
  "spec_lineCount contents = int (length (spec_split_escape contents)) + 1"

section \<open>A small service for the examples\<close>

text \<open>
  Collaborators for one-line fragments: a fragment that begins with
  \<open><style>\<close> is CSS, one that begins with \<open><script>\<close> is JavaScript, anything else HTML; the
  HTML engine offers one completion and a hover over the whole text; the styled service
  has one quick info; the formatter rewrites the range it is given.
\<close>

definition exampleCompletions :: CompletionList where
  "exampleCompletions =
     \<lparr>isIncomplete = False,
      items = [\<lparr>label = js ''div'', item_kind = Some CompletionItemKind_Property,
                detail = Some (js ''element''), item_documentation = None\<rparr>]\<rparr>"

definition exampleStyledQuickInfo :: QuickInfo where
  "exampleStyledQuickInfo =
     \<lparr>quick_kind = memberVariableElement,
      quick_kindModifiers = [],
      textSpan = \<lparr>span_start = 0, span_length = 5\<rparr>,
      quick_displayParts = [\<lparr>part_kind = js ''text'', part_text = js ''color''\<rparr>],
      quick_documentation = [],
      quick_tags = []\<rparr>"

definition exampleServices :: Services where
  "exampleServices =
     \<lparr>getLanguageAtPosition =
        (\<lambda>doc p. if take 7 (getText doc) = js ''<style>'' then Some (js ''css'')
                  else if take 8 (getText doc) = js ''<script>'' then Some (js ''javascript'')
                  else Some (js ''html'')),
      htmlDoComplete = (\<lambda>doc p. Some exampleCompletions),
      cssDoComplete = (\<lambda>doc p. None),
      htmlDoHover =
        (\<lambda>doc p. Some \<lparr>hover_contents =
                           HoverObject \<lparr>markup_tag = js ''html'', markup_value = getText doc\<rparr>,
                         hover_range = None\<rparr>),
      htmlFormat = (\<lambda>doc r options. [\<lparr>edit_range = r, edit_newText = js ''<p></p>''\<rparr>]),
      styledGetQuickInfoAtPosition = (\<lambda>context p. Some exampleStyledQuickInfo),
      formatEnabled = True\<rparr>"

text \<open>The same collaborators, but with an HTML engine that has no completions to offer.\<close>

definition silentServices :: Services where
  "silentServices = exampleServices\<lparr>htmlDoComplete := (\<lambda>doc p. None)\<rparr>"

text \<open>
  A classification by offset, as the regions of a document give it: in a fragment that
  begins with \<open><script>\<close>, an offset behind the tag is JavaScript; all else is HTML.
\<close>

definition regionServices :: Services where
  "regionServices =
     exampleServices\<lparr>getLanguageAtPosition :=
       (\<lambda>doc p. if take 8 (getText doc) = js ''<script>'' \<and> 8 \<le> offsetAt doc p
                 then Some (js ''javascript'') else Some (js ''html''))\<rparr>"

text \<open>A context of a one-line fragment in the file \<open>a.ts\<close>: offsets are columns.\<close>

definition exampleContext :: "string \<Rightarrow> TemplateContext" where
  "exampleContext s =
     \<lparr>fileName = js ''a.ts'', text' = js s,
      toPosition = (\<lambda>offset. \<lparr>line = 0, character = offset\<rparr>),
      toOffset = (\<lambda>p. character p)\<rparr>"

text \<open>
  A context with the same file name and text whose offsets lie eight columns further
  right.
\<close>

definition shiftedContext :: "string \<Rightarrow> TemplateContext" where
  "shiftedContext s =
     \<lparr>fileName = js ''a.ts'', text' = js s,
      toPosition = (\<lambda>offset. \<lparr>line = 0, character = offset - 8\<rparr>),
      toOffset = (\<lambda>p. character p + 8)\<rparr>"

definition examplePosition :: Position where
  "examplePosition = \<lparr>line = 0, character = 2\<rparr>"

section \<open>The completions cache holds one entry, found by exact keys\<close>

lemma exampleContext_fields:
  "fileName (exampleContext s) = js ''a.ts''"
  "text' (exampleContext s) = js s"
  "toOffset (exampleContext s) p = character p"
  "toPosition (exampleContext s) offset = \<lparr>line = 0, character = offset\<rparr>"
  by (simp_all add: exampleContext_def)

lemma shiftedContext_fields:
  "fileName (shiftedContext s) = js ''a.ts''"
  "text' (shiftedContext s) = js s"
  "toOffset (shiftedContext s) p = character p + 8"
  by (simp_all add: shiftedContext_def)

lemma getCached_updateCached:
  "getCached (updateCached cache context position list) context' position' =
     (if fileName context' = fileName context \<and> line position' = line position
         \<and> character position' = character position \<and> text' context' = text' context
      then Some list else None)"
  by (simp add: getCached_def updateCached_def arePositionsEqual_def)

lemma getCached_SomeD:
  assumes "getCached cache context position = Some list"
  shows "getCached cache context' position' =
     (if fileName context' = fileName context \<and> line position' = line position
         \<and> character position' = character position \<and> text' context' = text' context
      then Some list else None)"
proof -
  from assms obtain q where
    "completions cache = Some list"
    "cachedCompletionsFile cache = Some (fileName context)"
    "cachedCompletionsPosition cache = Some q"
    "line position = line q" "character position = character q"
    "cachedCompletionsContent cache = Some (text' context)"
    by (auto simp: getCached_def arePositionsEqual_def split: option.splits if_splits)
  then show ?thesis
    by (auto simp: getCached_def arePositionsEqual_def)
qed

lemma updateCached_explicit:
  "updateCached cache context position list =
     \<lparr>cachedCompletionsFile = Some (fileName context),
      cachedCompletionsPosition = Some position,
      cachedCompletionsContent = Some (text' context),
      completions = Some list\<rparr>"
  by (cases cache) (simp add: updateCached_def)

lemma getCached_after_getCompletionItems:
  "getCached (snd (getCompletionItems svc cache context position)) context' position' =
     (if fileName context' = fileName context \<and> line position' = line position
         \<and> character position' = character position \<and> text' context' = text' context
      then Some (fst (getCompletionItems svc cache context position)) else None)"
proof (cases "getCached cache context position")
  case None
  then show ?thesis
    by (simp add: getCompletionItems_def getCached_updateCached Let_def)
next
  case (Some list)
  then show ?thesis
    by (simp add: getCompletionItems_def getCached_SomeD [OF Some])
qed

text \<open>
  Claim C1.  Take any completion computation, from whatever cache, and the cache it leaves
  behind.  A lookup in that cache returns the list of that computation if and only if the
  file name, the line, the character and the text of the lookup equal those of the
  computation.  So the next computation returns that very list and leaves the cache alone
  when all the keys agree, and with any one key different it computes afresh, with the
  engines of the moment, and stores the new file name, position, text and list over the
  old ones.
\<close>

theorem completions_cache_exact_keys:
  "(let (list, cache1) = getCompletionItems svc cache context position;
        same = (fileName context' = fileName context \<and> line position' = line position
                \<and> character position' = character position \<and> text' context' = text' context)
    in getCached cache1 context' position' = (if same then Some list else None)
       \<and> getCompletionItems svc' cache1 context' position' =
           (if same then (list, cache1)
            else (computeCompletionItems svc' context' position',
                  \<lparr>cachedCompletionsFile = Some (fileName context'),
                   cachedCompletionsPosition = Some position',
                   cachedCompletionsContent = Some (text' context'),
                   completions = Some (computeCompletionItems svc' context' position')\<rparr>)))"
proof -
  obtain list cache1 where first: "getCompletionItems svc cache context position = (list, cache1)"
    by (cases "getCompletionItems svc cache context position")
  define same where "same \<longleftrightarrow> fileName context' = fileName context \<and> line position' = line position
    \<and> character position' = character position \<and> text' context' = text' context"
  have lookup: "getCached cache1 context' position' = (if same then Some list else None)"
    using getCached_after_getCompletionItems [of svc cache "context" position "context'" position']
    by (simp add: first same_def)
  have again: "getCompletionItems svc' cache1 context' position' =
           (if same then (list, cache1)
            else (computeCompletionItems svc' context' position',
                  \<lparr>cachedCompletionsFile = Some (fileName context'),
                   cachedCompletionsPosition = Some position',
                   cachedCompletionsContent = Some (text' context'),
                   completions = Some (computeCompletionItems svc' context' position')\<rparr>))"
    by (simp add: getCompletionItems_def lookup updateCached_explicit Let_def)
  from lookup again show ?thesis
    by (simp add: first same_def)
qed

lemma example_first_request:
  "getCompletionItems exampleServices newCompletionsCache (exampleContext ''<p>'') examplePosition
   = (exampleCompletions,
      updateCached newCompletionsCache (exampleContext ''<p>'') examplePosition exampleCompletions)"
  by (simp add: getCompletionItems_def getCached_def newCompletionsCache_def
      computeCompletionItems_def exampleServices_def exampleContext_def createVirtualDocument_def
      js_def Let_def)

lemma silent_compute:
  "computeCompletionItems silentServices (exampleContext ''<q>'') examplePosition = emptyCompletionList"
  by (simp add: computeCompletionItems_def silentServices_def exampleServices_def
      exampleContext_def createVirtualDocument_def js_def Let_def)

theorem completions_cache_exact_keys_witness:
  "fst (getCompletionItems exampleServices newCompletionsCache
          (exampleContext ''<p>'') examplePosition) = exampleCompletions
   \<and> fst (getCompletionItems silentServices
            (snd (getCompletionItems exampleServices newCompletionsCache
                    (exampleContext ''<p>'') examplePosition))
            (exampleContext ''<p>'') examplePosition) = exampleCompletions
   \<and> fst (getCompletionItems silentServices
            (snd (getCompletionItems exampleServices newCompletionsCache
                    (exampleContext ''<p>'') examplePosition))
            (exampleContext ''<q>'') examplePosition) = emptyCompletionList
   \<and> getCached (snd (getCompletionItems exampleServices newCompletionsCache
                     (exampleContext ''<p>'') examplePosition))
        (exampleContext ''<p>'') \<lparr>line = 0, character = 3\<rparr> = None"
proof -
  note keys =
    completions_cache_exact_keys [of exampleServices newCompletionsCache
      "exampleContext ''<p>''" examplePosition "exampleContext ''<p>''" examplePosition silentServices]
    completions_cache_exact_keys [of exampleServices newCompletionsCache
      "exampleContext ''<p>''" examplePosition "exampleContext ''<q>''" examplePosition silentServices]
    completions_cache_exact_keys [of exampleServices newCompletionsCache
      "exampleContext ''<p>''" examplePosition "exampleContext ''<p>''" "\<lparr>line = 0, character = 3\<rparr>"
      silentServices]
  have differ: "text' (exampleContext ''<q>'') \<noteq> text' (exampleContext ''<p>'')"
    "character \<lparr>line = 0, character = 3\<rparr> \<noteq> character examplePosition"
    by (simp_all add: exampleContext_def examplePosition_def js_def)
  from keys differ show ?thesis
    by (simp add: example_first_request silent_compute)
qed

section \<open>Translation of completion item kinds\<close>

lemmas CompletionItemKind_defs =
  CompletionItemKind_Text_def CompletionItemKind_Method_def CompletionItemKind_Function_def
  CompletionItemKind_Constructor_def CompletionItemKind_Field_def
  CompletionItemKind_Variable_def CompletionItemKind_Class_def
  CompletionItemKind_Interface_def CompletionItemKind_Module_def
  CompletionItemKind_Property_def CompletionItemKind_Unit_def CompletionItemKind_Value_def
  CompletionItemKind_Enum_def CompletionItemKind_Keyword_def CompletionItemKind_Snippet_def
  CompletionItemKind_Color_def CompletionItemKind_File_def CompletionItemKind_Reference_def

text \<open>
  Claim C3.  Each kind of the table has the host kind the table gives it; snippet and
  text, and every number that is not a kind of the table, have the host kind \<open>unknown\<close>.
  The function has no failing branch.
\<close>

theorem kind_translation_table:
  "translateionCompletionItemKind CompletionItemKind_Method = memberFunctionElement
   \<and> translateionCompletionItemKind CompletionItemKind_Function = functionElement
   \<and> translateionCompletionItemKind CompletionItemKind_Constructor = constructorImplementationElement
   \<and> translateionCompletionItemKind CompletionItemKind_Field = variableElement
   \<and> translateionCompletionItemKind CompletionItemKind_Variable = variableElement
   \<and> translateionCompletionItemKind CompletionItemKind_Class = classElement
   \<and> translateionCompletionItemKind CompletionItemKind_Interface = interfaceElement
   \<and> translateionCompletionItemKind CompletionItemKind_Module = moduleElement
   \<and> translateionCompletionItemKind CompletionItemKind_File = moduleElement
   \<and> translateionCompletionItemKind CompletionItemKind_Property = memberVariableElement
   \<and> translateionCompletionItemKind CompletionItemKind_Unit = constElement
   \<and> translateionCompletionItemKind CompletionItemKind_Value = constElement
   \<and> translateionCompletionItemKind CompletionItemKind_Color = constElement
   \<and> translateionCompletionItemKind CompletionItemKind_Enum = enumElement
   \<and> translateionCompletionItemKind CompletionItemKind_Keyword = keywordElement
   \<and> translateionCompletionItemKind CompletionItemKind_Reference = aliasElement
   \<and> translateionCompletionItemKind CompletionItemKind_Snippet = unknown
   \<and> translateionCompletionItemKind CompletionItemKind_Text = unknown
   \<and> (k \<notin> {CompletionItemKind_Method, CompletionItemKind_Function,
              CompletionItemKind_Constructor, CompletionItemKind_Field,
              CompletionItemKind_Variable, CompletionItemKind_Class,
              CompletionItemKind_Interface, CompletionItemKind_Module,
              CompletionItemKind_File, CompletionItemKind_Property, CompletionItemKind_Unit,
              CompletionItemKind_Value, CompletionItemKind_Color, CompletionItemKind_Enum,
              CompletionItemKind_Keyword, CompletionItemKind_Reference}
        \<longrightarrow> translateionCompletionItemKind k = unknown)"
  by (simp add: translateionCompletionItemKind_def CompletionItemKind_defs)

theorem kind_translation_table_witness:
  "translateionCompletionItemKind 99 = unknown \<and> translateionCompletionItemKind 0 = unknown
   \<and> translateionCompletionItemKind (- 1) = unknown
   \<and> translateionCompletionItemKind CompletionItemKind_Color = constElement"
  using kind_translation_table [of 99] kind_translation_table [of 0]
    kind_translation_table [of "- 1"]
  by (simp add: CompletionItemKind_defs)

section \<open>Completions outside HTML and CSS\<close>

lemma cacheOrigin_new: "cacheOrigin svc [] newCompletionsCache"
  by (simp add: cacheOrigin_def getCached_def newCompletionsCache_def)

lemma cacheOrigin_step:
  assumes "cacheOrigin svc requests cache"
  shows "cacheOrigin svc (requests @ [(c, p)]) (snd (getCompletionItems svc cache c p))"
proof (cases "getCached cache c p")
  case None
  show ?thesis
    unfolding cacheOrigin_def
  proof (intro allI impI)
    fix c' p' list
    assume "getCached (snd (getCompletionItems svc cache c p)) c' p' = Some list"
    then have "sameKeys c p c' p'" "list = computeCompletionItems svc c p"
      by (auto simp: getCompletionItems_def None Let_def getCached_updateCached sameKeys_def
          split: if_splits)
    then show "\<exists>r \<in> set (requests @ [(c, p)]).
        sameKeys (fst r) (snd r) c' p' \<and> list = computeCompletionItems svc (fst r) (snd r)"
      by simp
  qed
next
  case (Some cached)
  with assms show ?thesis
    by (fastforce simp: getCompletionItems_def cacheOrigin_def)
qed

lemma cacheOrigin_fold:
  "cacheOrigin svc earlier cache \<Longrightarrow>
   cacheOrigin svc (earlier @ requests)
     (fold (\<lambda>(c, p) cache. snd (getCompletionItems svc cache c p)) requests cache)"
proof (induction requests arbitrary: earlier cache)
  case Nil
  then show ?case by simp
next
  case (Cons request requests)
  obtain c p where request: "request = (c, p)"
    by (cases request)
  from Cons.prems have "cacheOrigin svc (earlier @ [(c, p)]) (snd (getCompletionItems svc cache c p))"
    by (rule cacheOrigin_step)
  from Cons.IH [OF this] show ?case
    by (simp add: request)
qed

lemma cacheOrigin_cacheAfter: "cacheOrigin svc requests (cacheAfter svc requests)"
  using cacheOrigin_fold [OF cacheOrigin_new, of svc requests]
  by (simp add: cacheAfter_def)

lemma computeCompletionItems_none:
  "classifiedNone svc c p \<Longrightarrow> computeCompletionItems svc c p = emptyCompletionList"
  by (simp add: classifiedNone_def computeCompletionItems_def Let_def)

lemma getCompletionItems_miss:
  "getCached cache c p = None \<Longrightarrow>
   fst (getCompletionItems svc cache c p) = computeCompletionItems svc c p"
  by (simp add: getCompletionItems_def Let_def)

lemma example_language:
  "getLanguageAtPosition exampleServices
     (createVirtualDocument exampleServices (exampleContext ''<script>'')) examplePosition
   = Some (js ''javascript'')"
  by (simp add: exampleServices_def createVirtualDocument_def exampleContext_def js_def Let_def)

text \<open>
  Claim C2, as the code has it.  Let a request be classified neither \<open>'html'\<close> nor \<open>'css'\<close>.
  From any cache that misses, the completions operation returns the empty completion
  list.  After any completion requests since the service was constructed it returns the
  empty list, with \<open>isIncomplete\<close> false and no items, and the completion info for the host
  has no entries, provided every earlier request with the same file name, position and
  text was classified neither \<open>'html'\<close> nor \<open>'css'\<close> as well.  The result is a list, not
  \<open>undefined\<close>, on every path.
\<close>

theorem none_region_empty_completions:
  assumes "classifiedNone svc c p"
  shows "(getCached cache c p = None \<longrightarrow>
            fst (getCompletionItems svc cache c p) = emptyCompletionList)
    \<and> ((\<forall>r \<in> set requests. sameKeys (fst r) (snd r) c p \<longrightarrow> classifiedNone svc (fst r) (snd r)) \<longrightarrow>
         fst (getCompletionItems svc (cacheAfter svc requests) c p) = emptyCompletionList
         \<and> isIncomplete (fst (getCompletionItems svc (cacheAfter svc requests) c p)) = False
         \<and> items (fst (getCompletionItems svc (cacheAfter svc requests) c p)) = []
         \<and> entries (fst (getCompletionsAtPosition svc (cacheAfter svc requests) c p)) = [])"
proof (intro conjI impI)
  assume "getCached cache c p = None"
  then show "fst (getCompletionItems svc cache c p) = emptyCompletionList"
    using computeCompletionItems_none [OF assms] by (simp add: getCompletionItems_miss)
next
  assume earlier: "\<forall>r \<in> set requests. sameKeys (fst r) (snd r) c p \<longrightarrow> classifiedNone svc (fst r) (snd r)"
  show empty: "fst (getCompletionItems svc (cacheAfter svc requests) c p) = emptyCompletionList"
  proof (cases "getCached (cacheAfter svc requests) c p")
    case None
    then show ?thesis
      using computeCompletionItems_none [OF assms] by (simp add: getCompletionItems_miss)
  next
    case (Some list)
    with cacheOrigin_cacheAfter [of svc requests] obtain r where
      "r \<in> set requests" "sameKeys (fst r) (snd r) c p"
      "list = computeCompletionItems svc (fst r) (snd r)"
      unfolding cacheOrigin_def by blast
    with earlier have "list = emptyCompletionList"
      by (simp add: computeCompletionItems_none)
    with Some show ?thesis
      by (simp add: getCompletionItems_def)
  qed
  then show "isIncomplete (fst (getCompletionItems svc (cacheAfter svc requests) c p)) = False"
    "items (fst (getCompletionItems svc (cacheAfter svc requests) c p)) = []"
    "entries (fst (getCompletionsAtPosition svc (cacheAfter svc requests) c p)) = []"
    by (simp_all add: emptyCompletionList_def getCompletionsAtPosition_def split_beta
        translateCompletionItemsToCompletionInfo_def)
qed

theorem none_region_empty_completions_witness:
  "entries (fst (getCompletionsAtPosition exampleServices
      (cacheAfter exampleServices
         [(exampleContext ''<p>'', examplePosition), (exampleContext ''<script>'', examplePosition)])
      (exampleContext ''<script>'') examplePosition)) = []
   \<and> fst (getCompletionItems exampleServices
      (cacheAfter exampleServices [(exampleContext ''<p>'', examplePosition)])
      (exampleContext ''<script>'') examplePosition) = \<lparr>isIncomplete = False, items = []\<rparr>"
proof -
  have none: "classifiedNone exampleServices (exampleContext ''<script>'') examplePosition"
    by (simp add: classifiedNone_def example_language js_def)
  have differ: "\<not> sameKeys (exampleContext ''<p>'') examplePosition
      (exampleContext ''<script>'') examplePosition"
    by (simp add: sameKeys_def exampleContext_def js_def)
  from none differ
    none_region_empty_completions [OF none, of newCompletionsCache
      "[(exampleContext ''<p>'', examplePosition), (exampleContext ''<script>'', examplePosition)]"]
    none_region_empty_completions [OF none, of newCompletionsCache
      "[(exampleContext ''<p>'', examplePosition)]"]
  show ?thesis
    by (simp add: emptyCompletionList_def)
qed

lemma stale_first_request:
  "getCompletionItems regionServices newCompletionsCache (exampleContext ''<script>x'') examplePosition
   = (exampleCompletions,
      updateCached newCompletionsCache (exampleContext ''<script>x'') examplePosition
        exampleCompletions)"
  by (simp add: getCompletionItems_def getCached_def newCompletionsCache_def
      computeCompletionItems_def regionServices_def exampleServices_def exampleContext_def
      examplePosition_def createVirtualDocument_def js_def Let_def)

text \<open>
  A first request, at column 2 of a fragment that begins with \<open><script>\<close>, lies in the tag
  and is HTML: the engine's list is stored.  A second request has the same file name,
  position and text, but its context puts the position behind the tag, where the
  classification is JavaScript; it is answered from the cache, with the stored list of
  one item.
\<close>

theorem none_region_empty_completions_counterexample:
  "classifiedNone regionServices (shiftedContext ''<script>x'') examplePosition
   \<and> fst (getCompletionItems regionServices
        (cacheAfter regionServices [(exampleContext ''<script>x'', examplePosition)])
        (shiftedContext ''<script>x'') examplePosition) = exampleCompletions
   \<and> items exampleCompletions \<noteq> []"
proof -
  have "classifiedNone regionServices (shiftedContext ''<script>x'') examplePosition"
    by (simp add: classifiedNone_def regionServices_def exampleServices_def shiftedContext_def
        examplePosition_def createVirtualDocument_def js_def Let_def)
  moreover have "fst (getCompletionItems regionServices
        (cacheAfter regionServices [(exampleContext ''<script>x'', examplePosition)])
        (shiftedContext ''<script>x'') examplePosition) = exampleCompletions"
    by (simp add: cacheAfter_def stale_first_request)
      (simp add: getCompletionItems_def getCached_updateCached exampleContext_fields
        shiftedContext_fields)
  moreover have "items exampleCompletions \<noteq> []"
    by (simp add: exampleCompletions_def)
  ultimately show ?thesis by simp
qed

section \<open>Details of a completion entry\<close>

lemma getCompletionEntryDetails_absent:
  assumes "find (\<lambda>x. label x = name) (items (fst (getCompletionItems svc cache context position))) = None"
  shows "getCompletionEntryDetails svc cache context position name =
     (\<lparr>details_name = name, details_kind = unknown, details_kindModifiers = [],
       details_tags = [], details_displayParts = toDisplayParts (Some (PlainText name)),
       details_documentation = []\<rparr>,
      snd (getCompletionItems svc cache context position))"
  using assms by (simp add: getCompletionEntryDetails_def split_beta)

lemma getCompletionEntryDetails_found:
  assumes "find (\<lambda>x. label x = name) (items (fst (getCompletionItems svc cache context position))) = Some item"
  shows "getCompletionEntryDetails svc cache context position name =
     (translateCompletionItemsToCompletionEntryDetails item,
      snd (getCompletionItems svc cache context position))"
  using assms by (simp add: getCompletionEntryDetails_def split_beta)

lemma find_label_None:
  "find (\<lambda>x. label x = name) xs = None \<longleftrightarrow> name \<notin> label ` set xs"
  by (auto simp: find_None_iff)

text \<open>
  Claim C6.  \<open>getCompletionEntryDetails\<close> has no failing branch and returns a record on
  every path, and the record always carries the requested name.  When no item of the
  computed completion list has the name as its label, it is the record made from the name
  alone: that name, the host kind \<open>unknown\<close>, empty kind modifiers, no tags, no
  documentation.
\<close>

theorem entry_details_fallback:
  "details_name (fst (getCompletionEntryDetails svc cache context position name)) = name
   \<and> (name \<notin> label ` set (items (fst (getCompletionItems svc cache context position))) \<longrightarrow>
        getCompletionEntryDetails svc cache context position name =
          (\<lparr>details_name = name, details_kind = unknown, details_kindModifiers = [],
            details_tags = [], details_displayParts = toDisplayParts (Some (PlainText name)),
            details_documentation = []\<rparr>,
           snd (getCompletionItems svc cache context position)))"
proof (cases "find (\<lambda>x. label x = name) (items (fst (getCompletionItems svc cache context position)))")
  case None
  then show ?thesis
    using getCompletionEntryDetails_absent [OF None] by simp
next
  case (Some item)
  then have "label item = name"
    by (auto simp: find_Some_iff)
  moreover from Some
  have "name \<in> label ` set (items (fst (getCompletionItems svc cache context position)))"
    using find_label_None [of name "items (fst (getCompletionItems svc cache context position))"]
    by simp
  ultimately show ?thesis
    using getCompletionEntryDetails_found [OF Some]
    by (simp add: translateCompletionItemsToCompletionEntryDetails_def)
qed

theorem entry_details_fallback_witness:
  "fst (getCompletionEntryDetails exampleServices newCompletionsCache (exampleContext ''<p>'')
          examplePosition (js ''span'')) =
     \<lparr>details_name = js ''span'', details_kind = unknown, details_kindModifiers = [],
      details_tags = [],
      details_displayParts = [\<lparr>part_kind = js ''text'', part_text = js ''span''\<rparr>],
      details_documentation = []\<rparr>"
proof -
  have absent: "js ''span'' \<notin> label ` set (items (fst (getCompletionItems exampleServices
      newCompletionsCache (exampleContext ''<p>'') examplePosition)))"
    by (simp add: example_first_request exampleCompletions_def js_def)
  show ?thesis
    using absent entry_details_fallback [of exampleServices newCompletionsCache
        "exampleContext ''<p>''" examplePosition "js ''span''"]
    by (simp add: toDisplayParts_def js_def)
qed

text \<open>
  Claim C10.  The kind modifiers of the details are \<open>'declare'\<close> when an item of the computed
  list has the name as its label, and empty when none has; the two differ.
\<close>

theorem entry_details_kindModifiers:
  "details_kindModifiers (fst (getCompletionEntryDetails svc cache context position name)) =
     (if name \<in> label ` set (items (fst (getCompletionItems svc cache context position)))
      then js ''declare'' else [])
   \<and> js ''declare'' \<noteq> []"
proof (cases "find (\<lambda>x. label x = name) (items (fst (getCompletionItems svc cache context position)))")
  case None
  then show ?thesis
    using getCompletionEntryDetails_absent [OF None]
    by (simp add: find_label_None js_def)
next
  case (Some item)
  then have "name \<in> label ` set (items (fst (getCompletionItems svc cache context position)))"
    using find_label_None [of name "items (fst (getCompletionItems svc cache context position))"]
    by simp
  then show ?thesis
    using getCompletionEntryDetails_found [OF Some]
    by (simp add: translateCompletionItemsToCompletionEntryDetails_def js_def)
qed

theorem entry_details_kindModifiers_witness:
  "details_kindModifiers (fst (getCompletionEntryDetails exampleServices newCompletionsCache
      (exampleContext ''<p>'') examplePosition (js ''div''))) = js ''declare''
   \<and> details_kindModifiers (fst (getCompletionEntryDetails exampleServices newCompletionsCache
      (exampleContext ''<p>'') examplePosition (js ''span''))) = []"
  using entry_details_kindModifiers [of exampleServices newCompletionsCache
      "exampleContext ''<p>''" examplePosition "js ''div''"]
    entry_details_kindModifiers [of exampleServices newCompletionsCache
      "exampleContext ''<p>''" examplePosition "js ''span''"]
  by (simp add: example_first_request exampleCompletions_def js_def)

section \<open>The text span of a translated hover\<close>

text \<open>
  Claim C7.  With a range, the span of the quick info starts at the offset of the start
  of the range and its length is the offset of the end of the range minus that start;
  without a range, the span starts at the offset of the query position and has length 1.
\<close>

theorem hover_text_span:
  "textSpan (translateHover svc \<lparr>hover_contents = c, hover_range = Some r\<rparr> position context language) =
     \<lparr>span_start = toOffset context (range_start r),
      span_length = toOffset context (range_end r) - toOffset context (range_start r)\<rparr>
   \<and> textSpan (translateHover svc \<lparr>hover_contents = c, hover_range = None\<rparr> position context language) =
     \<lparr>span_start = toOffset context position, span_length = 1\<rparr>"
  by (simp add: translateHover_def split_beta Let_def)

theorem hover_text_span_witness:
  "textSpan (translateHover exampleServices
      \<lparr>hover_contents = HoverString (js ''p''),
       hover_range = Some \<lparr>range_start = \<lparr>line = 0, character = 1\<rparr>,
                            range_end = \<lparr>line = 0, character = 4\<rparr>\<rparr>\<rparr>
      examplePosition (exampleContext ''<p>'') (Some (js ''html''))) =
     \<lparr>span_start = 1, span_length = 3\<rparr>
   \<and> textSpan (translateHover exampleServices
      \<lparr>hover_contents = HoverString (js ''p''), hover_range = None\<rparr>
      examplePosition (exampleContext ''<p>'') (Some (js ''html''))) =
     \<lparr>span_start = 2, span_length = 1\<rparr>"
  using hover_text_span [of exampleServices "HoverString (js ''p'')"
      "\<lparr>range_start = \<lparr>line = 0, character = 1\<rparr>, range_end = \<lparr>line = 0, character = 4\<rparr>\<rparr>"
      examplePosition "exampleContext ''<p>''" "Some (js ''html'')"]
  by (simp add: exampleContext_def examplePosition_def)

section \<open>Hover contents and the style cleanup\<close>

lemma fold_convertPart:
  assumes "\<And>h acc. h \<in> set hs \<Longrightarrow>
     convertPart language h acc =
       (fst acc @ map (\<lambda>v. unknownPart (if language = Some (js ''css'')
                                           then removeStyleDeclaration v else v))
                    (objectValues h),
        snd acc @ map unknownPart (stringValues h))"
  shows "fold (convertPart language) hs acc =
       (fst acc @ map (\<lambda>v. unknownPart (if language = Some (js ''css'')
                                           then removeStyleDeclaration v else v))
                    (concat (map objectValues hs)),
        snd acc @ map unknownPart (concat (map stringValues hs)))"
  using assms
proof (induction hs arbitrary: acc)
  case Nil
  then show ?case by simp
next
  case (Cons h hs)
  then show ?case by simp
qed

lemma convertPart_parts:
  "convertPart language h acc =
     (fst acc @ map (\<lambda>v. unknownPart (if language = Some (js ''css'')
                                         then removeStyleDeclaration v else v))
                  (objectValues h),
      snd acc @ map unknownPart (stringValues h))"
proof (induction h arbitrary: acc)
  case (HoverString s)
  show ?case by (simp add: unknownPart_def)
next
  case (HoverArray hs)
  then show ?case by (simp add: fold_convertPart)
next
  case (HoverObject m)
  show ?case by (simp add: unknownPart_def)
qed

lemma translateHover_parts:
  "quick_displayParts (translateHover svc h position context language) =
     map (\<lambda>v. unknownPart (if language = Some (js ''css'')
                              then removeStyleDeclaration v else v))
       (objectValues (hover_contents h))"
  "quick_documentation (translateHover svc h position context language) =
     map unknownPart (stringValues (hover_contents h))"
  by (simp_all add: translateHover_def convertPart_parts split_beta Let_def)

lemma js_css_html: "js ''css'' \<noteq> js ''html''"
  by (simp add: js_def)

lemma removeStyleDeclaration_length:
  "length (removeStyleDeclaration v) \<le> length v"
proof (induction v rule: removeStyleDeclaration.induct)
  case 1
  show ?case by simp
next
  case (2 c cs)
  show ?case
  proof (cases "styleDeclarationAt (c # cs)")
    case True
    have "length (dropWhile isWhiteSpace (drop 7 cs)) \<le> length (drop 7 cs)"
      by (rule length_dropWhile_le)
    with True "2.IH"(1) show ?thesis by simp
  next
    case False
    with "2.IH"(2) show ?thesis by simp
  qed
qed

lemma removeStyleDeclaration_unchanged:
  "\<not> containsStyleDeclaration v \<Longrightarrow> removeStyleDeclaration v = v"
  by (induction v) simp_all

lemma removeStyleDeclaration_shorter:
  "containsStyleDeclaration v \<Longrightarrow> length (removeStyleDeclaration v) < length v"
proof (induction v)
  case Nil
  then show ?case by simp
next
  case (Cons c cs)
  show ?case
  proof (cases "styleDeclarationAt (c # cs)")
    case True
    have "length (removeStyleDeclaration (dropWhile isWhiteSpace (drop 7 cs)))
        \<le> length (dropWhile isWhiteSpace (drop 7 cs))"
      by (rule removeStyleDeclaration_length)
    also have "\<dots> \<le> length (drop 7 cs)"
      by (rule length_dropWhile_le)
    finally show ?thesis using True by simp
  next
    case False
    with Cons show ?thesis by simp
  qed
qed

lemma removeStyleDeclaration_example:
  "removeStyleDeclaration (js ''<style>\<newline>    color: red;'') = js ''color: red;''"
  by (simp add: js_def styleDeclarationAt_def canonicalize_def isWhiteSpace_def)

lemma removeStyleDeclaration_inside:
  "removeStyleDeclaration (js ''x<style>\<newline> y'') = js ''xy''"
  by (simp add: js_def styleDeclarationAt_def canonicalize_def isWhiteSpace_def)

text \<open>
  Claim C5, as the code has it.  The header parts of a translated hover are the values of
  the object parts of its contents, each with every match of the style pattern removed
  when the language is \<open>'css'\<close> and as it is for any other language; the string parts go to
  the documentation as they are, whatever the language.  The value \<open><style>\<close>, line feed,
  four spaces, \<open>color: red;\<close> becomes \<open>color: red;\<close>.  The cleanup leaves a value unchanged
  if and only if the pattern (the tag in any letter case, a line feed, at least one white
  space character) matches nowhere in it, be it at the start or further in.
\<close>

theorem css_hover_cleanup:
  "quick_displayParts (translateHover svc h position context language) =
     map (\<lambda>v. unknownPart (if language = Some (js ''css'')
                              then removeStyleDeclaration v else v))
       (objectValues (hover_contents h))
   \<and> quick_documentation (translateHover svc h position context language) =
       map unknownPart (stringValues (hover_contents h))
   \<and> removeStyleDeclaration (js ''<style>\<newline>    color: red;'') = js ''color: red;''
   \<and> (removeStyleDeclaration v = v \<longleftrightarrow> \<not> containsStyleDeclaration v)"
proof -
  have "removeStyleDeclaration v = v \<longleftrightarrow> \<not> containsStyleDeclaration v"
    using removeStyleDeclaration_unchanged [of v] removeStyleDeclaration_shorter [of v]
    by auto
  then show ?thesis
    by (simp add: translateHover_parts removeStyleDeclaration_example)
qed

theorem css_hover_cleanup_witness:
  "quick_displayParts (translateHover exampleServices
      \<lparr>hover_contents =
         HoverArray [HoverObject \<lparr>markup_tag = js ''css'',
                                   markup_value = js ''<style>\<newline>    color: red;''\<rparr>,
                     HoverString (js ''<style>\<newline>  x''),
                     HoverObject \<lparr>markup_tag = js ''css'', markup_value = js ''color: blue;''\<rparr>],
       hover_range = None\<rparr>
      examplePosition (exampleContext ''x'') (Some (js ''css''))) =
     [unknownPart (js ''color: red;''), unknownPart (js ''color: blue;'')]
   \<and> quick_documentation (translateHover exampleServices
      \<lparr>hover_contents =
         HoverArray [HoverObject \<lparr>markup_tag = js ''css'',
                                   markup_value = js ''<style>\<newline>    color: red;''\<rparr>,
                     HoverString (js ''<style>\<newline>  x''),
                     HoverObject \<lparr>markup_tag = js ''css'', markup_value = js ''color: blue;''\<rparr>],
       hover_range = None\<rparr>
      examplePosition (exampleContext ''x'') (Some (js ''css''))) =
     [unknownPart (js ''<style>\<newline>  x'')]"
proof -
  have "\<not> containsStyleDeclaration (js ''color: blue;'')"
    by (simp add: js_def styleDeclarationAt_def canonicalize_def)
  then show ?thesis
    using css_hover_cleanup [of exampleServices
      "\<lparr>hover_contents =
         HoverArray [HoverObject \<lparr>markup_tag = js ''css'',
                                   markup_value = js ''<style>\<newline>    color: red;''\<rparr>,
                     HoverString (js ''<style>\<newline>  x''),
                     HoverObject \<lparr>markup_tag = js ''css'', markup_value = js ''color: blue;''\<rparr>],
       hover_range = None\<rparr>"
      examplePosition "exampleContext ''x''" "Some (js ''css'')" "js ''color: blue;''"]
    by simp
qed

text \<open>
  The value \<open>x<style>\<close>, line feed, space, \<open>y\<close> does not begin with the tag, and the CSS
  translation still rewrites it, to \<open>xy\<close>.
\<close>

theorem css_hover_cleanup_counterexample:
  "\<not> prefix (js ''<style>'') (js ''x<style>\<newline> y'')
   \<and> quick_displayParts (translateHover exampleServices
        \<lparr>hover_contents = HoverObject \<lparr>markup_tag = js ''css'',
                                         markup_value = js ''x<style>\<newline> y''\<rparr>,
         hover_range = None\<rparr>
        examplePosition (exampleContext ''x'') (Some (js ''css''))) =
       [unknownPart (js ''xy'')]
   \<and> js ''xy'' \<noteq> js ''x<style>\<newline> y''"
  by (simp add: translateHover_parts removeStyleDeclaration_inside) (simp add: js_def)

section \<open>Quick info\<close>

text \<open>
  Claim C9.  \<open>getQuickInfoAtPosition\<close> hands a position classified \<open>'css'\<close> to the styled
  service and returns what that returns; for \<open>'html'\<close> it translates the hover of the HTML
  engine, if there is one, with the language \<open>'html'\<close>; for anything else it returns
  nothing.  The header of a hover translated with \<open>'html'\<close> holds the values as they are,
  without the cleanup.  Every record \<open>translateHover\<close> builds has the kind
  \<open>ScriptElementKind.string\<close> and empty kind modifiers.
\<close>

theorem quick_info_dispatch:
  "getQuickInfoAtPosition svc context position =
     (let language = getLanguageAtPosition svc (createVirtualDocument svc context) position
      in if language = Some (js ''css'') then styledGetQuickInfoAtPosition svc context position
         else if language = Some (js ''html'')
         then map_option (\<lambda>h. translateHover svc h position context (Some (js ''html'')))
                (htmlDoHover svc (createVirtualDocument svc context) position)
         else None)
   \<and> quick_displayParts (translateHover svc h position context (Some (js ''html''))) =
       map unknownPart (objectValues (hover_contents h))
   \<and> quick_kind (translateHover svc h position context language) = stringElement
   \<and> quick_kindModifiers (translateHover svc h position context language) = []"
proof -
  have "quick_displayParts (translateHover svc h position context (Some (js ''html''))) =
       map unknownPart (objectValues (hover_contents h))"
    by (simp add: translateHover_parts js_css_html [symmetric])
  moreover have "quick_kind (translateHover svc h position context language) = stringElement"
    "quick_kindModifiers (translateHover svc h position context language) = []"
    by (simp_all add: translateHover_def split_beta Let_def)
  moreover have "getQuickInfoAtPosition svc context position =
     (let language = getLanguageAtPosition svc (createVirtualDocument svc context) position
      in if language = Some (js ''css'') then styledGetQuickInfoAtPosition svc context position
         else if language = Some (js ''html'')
         then map_option (\<lambda>h. translateHover svc h position context (Some (js ''html'')))
                (htmlDoHover svc (createVirtualDocument svc context) position)
         else None)"
    by (auto simp: getQuickInfoAtPosition_def Let_def js_css_html [symmetric] split: option.splits)
  ultimately show ?thesis by simp
qed

theorem quick_info_dispatch_witness:
  "getQuickInfoAtPosition exampleServices (exampleContext ''<style>\<newline>  a'') examplePosition
     = Some exampleStyledQuickInfo
   \<and> map_option quick_displayParts
        (getQuickInfoAtPosition exampleServices (exampleContext ''<p><style>\<newline>  a'') examplePosition)
      = Some [unknownPart (js ''<p><style>\<newline>  a'')]"
  using quick_info_dispatch [of exampleServices "exampleContext ''<style>\<newline>  a''" examplePosition]
    quick_info_dispatch [of exampleServices "exampleContext ''<p><style>\<newline>  a''" examplePosition
      "\<lparr>hover_contents = HoverObject \<lparr>markup_tag = js ''html'', markup_value = js ''<p><style>\<newline>  a''\<rparr>,
        hover_range = None\<rparr>"]
  by (simp add: exampleServices_def createVirtualDocument_def exampleContext_def js_def Let_def)

section \<open>The line count of a virtual document\<close>

lemma split_n_not_Nil: "split_n t \<noteq> []"
  by (induction t) (auto split: list.splits)

lemma length_split_n: "length (split_n t) = count_list t 0x6E + 1"
proof (induction t)
  case Nil
  show ?case by simp
next
  case (Cons c cs)
  then show ?case
    using split_n_not_Nil [of cs] by (auto split: list.splits)
qed

lemma lineCount_counts_letter_n:
  "lineCount (createVirtualDocument svc context) = int (count_list (text' context) 0x6E) + 2"
  "lineCount (createCssVirtualDocument svc context) = int (count_list (text' context) 0x6E) + 2"
  by (simp_all add: createVirtualDocument_def createCssVirtualDocument_def Let_def length_split_n)

text \<open>
  Claim C8.  The line count of a virtual document is one more than the number of pieces
  of \<open>contents.split(/n/g)\<close>, and the pattern \<open>/n/\<close> is the letter \<open>n\<close>, neither a line feed
  nor a backslash followed by \<open>n\<close>.  The text \<open>banana\<close> is one line and has no backslash: a
  split at backslash-\<open>n\<close> leaves it in one piece and gives the count 2, and both documents
  have the line count 4.  The text of the three lines \<open>a\<close>, \<open>b\<close>, \<open>c\<close> has the line count 2.
\<close>

theorem lineCount_splits_at_letter_n:
  "lineCount (createVirtualDocument exampleServices (exampleContext ''banana'')) = 4
   \<and> lineCount (createCssVirtualDocument exampleServices (exampleContext ''banana'')) = 4
   \<and> spec_lineCount (js ''banana'') = 2
   \<and> lineCount (createVirtualDocument exampleServices (exampleContext ''a\<newline>b\<newline>c'')) = 2"
  by (simp add: lineCount_counts_letter_n exampleContext_fields)
    (simp add: js_def spec_lineCount_def)

section \<open>The range that is formatted\<close>


















end
